theory Spec2Isabelle
  imports Complex_Main
begin

section \<open>Python values, exceptions and the clock\<close>

text \<open>
  The repository is dynamically typed Python.  Values that travel through message
  fields, contexts, sessions and response envelopes are JSON-like and are modelled by
  \<open>pyval\<close>.  A Python \<open>dict\<close> with string keys is an association list in insertion
  order (Python dictionaries keep insertion order); a \<open>float\<close> is an exact real (rounding
  is not modelled).  Strings are lists of characters, one \<open>char\<close> per Python character
  (the two marks of the tool chain summary, which no \<open>char\<close> can hold, are spelled out in
  bytes where they are defined).
\<close>

datatype pyval =
    PNone
  | PBool bool
  | PInt int
  | PFloat real
  | PStr string
  | PList "pyval list"
  | PDict "(string \<times> pyval) list"

type_synonym pydict = "(string \<times> pyval) list"

text \<open>Exceptions are values; \<open>exn_str\<close> is Python's \<open>str(e)\<close>.\<close>

datatype exn =
    TypeError string
  | AttributeError string
  | Exception string

fun exn_str :: "exn \<Rightarrow> string" where
  "exn_str (TypeError s) = s"
| "exn_str (AttributeError s) = s"
| "exn_str (Exception s) = s"

text \<open>\<open>d[k] = v\<close>: an existing key keeps its position, a new key goes to the end.\<close>

fun dict_set :: "'k \<Rightarrow> 'v \<Rightarrow> ('k \<times> 'v) list \<Rightarrow> ('k \<times> 'v) list" where
  "dict_set k v [] = [(k, v)]"
| "dict_set k v (p # ps) = (if fst p = k then (k, v) # ps else p # dict_set k v ps)"

text \<open>\<open>d.get(k)\<close> is \<open>map_of d k\<close>; \<open>k in d\<close> is \<open>map_of d k \<noteq> None\<close>.\<close>

definition dict_has :: "('k \<times> 'v) list \<Rightarrow> 'k \<Rightarrow> bool" where
  "dict_has d k = (map_of d k \<noteq> None)"

text \<open>\<open>{**a, **b}\<close>: the entries of \<open>a\<close>, overlaid in order by those of \<open>b\<close>.\<close>

definition dict_merge :: "('k \<times> 'v) list \<Rightarrow> ('k \<times> 'v) list \<Rightarrow> ('k \<times> 'v) list" where
  "dict_merge a b = fold (\<lambda>(k, v) d. dict_set k v d) b a"

text \<open>Python truthiness (\<open>bool(v)\<close>, \<open>if v\<close>, \<open>v or w\<close>).\<close>

fun py_truthy :: "pyval \<Rightarrow> bool" where
  "py_truthy PNone = False"
| "py_truthy (PBool b) = b"
| "py_truthy (PInt i) = (i \<noteq> 0)"
| "py_truthy (PFloat r) = (r \<noteq> 0)"
| "py_truthy (PStr s) = (s \<noteq> [])"
| "py_truthy (PList l) = (l \<noteq> [])"
| "py_truthy (PDict d) = (d \<noteq> [])"

text \<open>\<open>type(v).__name__\<close>, as it appears in the interpreter's error messages.\<close>

fun py_type_name :: "pyval \<Rightarrow> string" where
  "py_type_name PNone = ''NoneType''"
| "py_type_name (PBool b) = ''bool''"
| "py_type_name (PInt i) = ''int''"
| "py_type_name (PFloat r) = ''float''"
| "py_type_name (PStr s) = ''str''"
| "py_type_name (PList l) = ''list''"
| "py_type_name (PDict d) = ''dict''"

text \<open>\<open>str(n)\<close> for an integer: its decimal digits, with a minus sign when negative.\<close>

definition digit_char :: "nat \<Rightarrow> char" where
  "digit_char d = ''0123456789'' ! d"

fun str_nat :: "nat \<Rightarrow> string" where
  "str_nat n = (if n < 10 then [digit_char n]
                else str_nat (n div 10) @ [digit_char (n mod 10)])"

declare str_nat.simps [simp del]

definition str_int :: "int \<Rightarrow> string" where
  "str_int i = (if i < 0 then CHR ''-'' # str_nat (nat (- i)) else str_nat (nat i))"

text \<open>
  Time is read from the system clock.  Each call of \<open>time.time()\<close> or
  \<open>datetime.utcnow()\<close> consumes the next reading of a clock given from outside; a
  reading is seen as float seconds (\<open>time.time()\<close>), as an ISO-8601 string
  (\<open>utcnow().isoformat()\<close>) or as whole epoch seconds (\<open>int(utcnow().timestamp())\<close>).
  Functions that read the clock take the index of the next reading and return the index
  after their reads.
\<close>

record reading =
  time_float :: real
  utc_iso :: string
  utc_epoch :: int

type_synonym clock = "nat \<Rightarrow> reading"

section \<open>The message contract (acp.py)\<close>

text \<open>
  The dataclass \<open>ACPMessage\<close>.  Its annotations are not enforced at run time, so every
  field holds an arbitrary value; \<open>is_valid\<close> is what inspects them.  The field
  \<open>context\<close> is named \<open>msg_context\<close> here.
\<close>

record ACPMessage =
  from_id :: pyval
  to_id :: pyval
  intent :: pyval
  message :: pyval
  language :: pyval
  msg_context :: pyval
  timestamp :: pyval
  session_id :: pyval

text \<open>\<open>__post_init__\<close>: fills the three defaults; the clock is read only for a missing
  timestamp and for a missing session id.\<close>

definition post_init :: "clock \<Rightarrow> nat \<Rightarrow> ACPMessage \<Rightarrow> ACPMessage \<times> nat" where
  "post_init clk t m =
     (let m1 = (if msg_context m = PNone then m\<lparr>msg_context := PDict []\<rparr> else m);
          (m2, t2) = (if timestamp m1 = PNone
                      then (m1\<lparr>timestamp := PStr (utc_iso (clk t))\<rparr>, Suc t)
                      else (m1, t));
          (m3, t3) = (if session_id m2 = PNone
                      then (m2\<lparr>session_id := PStr (''session_'' @ str_int (utc_epoch (clk t2)))\<rparr>, Suc t2)
                      else (m2, t2))
      in (m3, t3))"

text \<open>The generated \<open>__init__\<close> followed by \<open>__post_init__\<close>, all eight arguments given.\<close>

definition ACPMessage_new ::
  "clock \<Rightarrow> nat \<Rightarrow> pyval \<Rightarrow> pyval \<Rightarrow> pyval \<Rightarrow> pyval \<Rightarrow> pyval \<Rightarrow> pyval \<Rightarrow> pyval \<Rightarrow> pyval
     \<Rightarrow> ACPMessage \<times> nat" where
  "ACPMessage_new clk t f_id t_id i msg lang ctx ts sid =
     post_init clk t \<lparr>from_id = f_id, to_id = t_id, intent = i, message = msg,
       language = lang, msg_context = ctx, timestamp = ts, session_id = sid\<rparr>"

definition acp_fields :: "string list" where
  "acp_fields = [''from_id'', ''to_id'', ''intent'', ''message'', ''language'', ''context'',
                 ''timestamp'', ''session_id'']"

definition acp_required :: "string list" where
  "acp_required = [''from_id'', ''to_id'', ''intent'', ''message'']"

text \<open>The texts of the \<open>TypeError\<close>s that CPython (3.10 and later) raises when keyword
  arguments do not fit a signature.\<close>

definition quoted :: "string \<Rightarrow> string" where
  "quoted s = [CHR 0x27] @ s @ [CHR 0x27]"

definition bad_keyword_msg :: "string \<Rightarrow> string \<Rightarrow> string" where
  "bad_keyword_msg cls k =
     (if k = ''self'' then cls @ ''.__init__() got multiple values for argument '' @ quoted k
      else cls @ ''.__init__() got an unexpected keyword argument '' @ quoted k)"

fun quoted_names :: "string list \<Rightarrow> string" where
  "quoted_names [] = []"
| "quoted_names [a] = quoted a"
| "quoted_names [a, b] = quoted a @ '' and '' @ quoted b"
| "quoted_names [a, b, c] = quoted a @ '', '' @ quoted b @ '', and '' @ quoted c"
| "quoted_names (a # b # c # d # es) = quoted a @ '', '' @ quoted_names (b # c # d # es)"

definition missing_msg :: "string \<Rightarrow> string list \<Rightarrow> string" where
  "missing_msg cls ks =
     cls @ ''.__init__() missing '' @ str_nat (length ks) @ '' required positional argument''
       @ (if length ks = 1 then '': '' else ''s: '') @ quoted_names ks"

text \<open>
  \<open>from_dict\<close> is \<open>cls(**data)\<close>.  The first key of \<open>data\<close> that names no parameter raises
  at once; then a missing required field raises; otherwise the message is built, absent
  optional fields taking their declared defaults.
\<close>

definition from_dict :: "clock \<Rightarrow> nat \<Rightarrow> pydict \<Rightarrow> exn + ACPMessage \<times> nat" where
  "from_dict clk t data =
     (case find (\<lambda>k. k \<notin> set acp_fields) (map fst data) of
        Some k \<Rightarrow> Inl (TypeError (bad_keyword_msg ''ACPMessage'' k))
      | None \<Rightarrow>
         (case (map_of data ''from_id'', map_of data ''to_id'', map_of data ''intent'',
                map_of data ''message'') of
            (Some f_id, Some t_id, Some i, Some msg) \<Rightarrow>
              Inr (ACPMessage_new clk t f_id t_id i msg
                     (case map_of data ''language'' of None \<Rightarrow> PStr ''en-US'' | Some v \<Rightarrow> v)
                     (case map_of data ''context'' of None \<Rightarrow> PNone | Some v \<Rightarrow> v)
                     (case map_of data ''timestamp'' of None \<Rightarrow> PNone | Some v \<Rightarrow> v)
                     (case map_of data ''session_id'' of None \<Rightarrow> PNone | Some v \<Rightarrow> v))
          | _ \<Rightarrow> Inl (TypeError (missing_msg ''ACPMessage''
                        (filter (\<lambda>k. \<not> dict_has data k) acp_required)))))"

text \<open>\<open>to_dict\<close> is \<open>dataclasses.asdict\<close>: the eight fields in declaration order, their
  values copied.\<close>

definition to_dict :: "ACPMessage \<Rightarrow> pydict" where
  "to_dict m =
     [(''from_id'', from_id m), (''to_id'', to_id m), (''intent'', intent m),
      (''message'', message m), (''language'', language m), (''context'', msg_context m),
      (''timestamp'', timestamp m), (''session_id'', session_id m)]"

text \<open>
  \<open>is_valid\<close>.  Every instance has the four required attributes, so \<open>hasattr\<close> is true and
  the loop tests for \<open>None\<close> only.  The method assigns nothing: it is a function of the
  message.
\<close>

definition is_str :: "pyval \<Rightarrow> bool" where
  "is_str v = (case v of PStr _ \<Rightarrow> True | _ \<Rightarrow> False)"

definition is_dict :: "pyval \<Rightarrow> bool" where
  "is_dict v = (case v of PDict _ \<Rightarrow> True | _ \<Rightarrow> False)"

definition str_len :: "pyval \<Rightarrow> nat" where
  "str_len v = (case v of PStr s \<Rightarrow> length s | _ \<Rightarrow> 0)"

definition is_valid :: "ACPMessage \<Rightarrow> bool" where
  "is_valid m =
     (if list_ex (\<lambda>v. v = PNone) [from_id m, to_id m, intent m, message m] then False
      else if \<not> is_str (language m) \<or> str_len (language m) < 2 then False
      else if msg_context m \<noteq> PNone \<and> \<not> is_dict (msg_context m) then False
      else True)"


section \<open>Strings\<close>

text \<open>\<open>s.lower()\<close>: the letters A to Z become a to z; every other character stays (case
  mapping outside ASCII is not modelled).\<close>

definition lower_char :: "char \<Rightarrow> char" where
  "lower_char c =
     (case map_of (zip ''ABCDEFGHIJKLMNOPQRSTUVWXYZ'' ''abcdefghijklmnopqrstuvwxyz'') c of
        Some l \<Rightarrow> l
      | None \<Rightarrow> c)"

definition py_lower :: "string \<Rightarrow> string" where
  "py_lower s = map lower_char s"

text \<open>\<open>s.startswith(p)\<close>.\<close>

fun starts_with :: "string \<Rightarrow> string \<Rightarrow> bool" where
  "starts_with s [] = True"
| "starts_with [] (p # ps) = False"
| "starts_with (c # cs) (p # ps) = (c = p \<and> starts_with cs ps)"

text \<open>\<open>w in s\<close> for two strings: \<open>w\<close> starts at some position of \<open>s\<close>.\<close>

fun str_contains :: "string \<Rightarrow> string \<Rightarrow> bool" where
  "str_contains [] w = (w = [])"
| "str_contains (c # cs) w = (starts_with (c # cs) w \<or> str_contains cs w)"

text \<open>The message of the \<open>AttributeError\<close> for a method a value does not have.\<close>

definition no_attribute :: "pyval \<Rightarrow> string \<Rightarrow> exn" where
  "no_attribute v a =
     AttributeError (quoted (py_type_name v) @ '' object has no attribute '' @ quoted a)"

section \<open>Intent resolution (router.py, \<open>_analyze_intent\<close>)\<close>

text \<open>
  An intent that is truthy is returned as it is.  Otherwise the text is lower-cased
  (\<open>message.message.lower()\<close>, which raises when the text is not a string) and the five
  keyword lists are tried in the order of the \<open>if\<close>/\<open>elif\<close> chain.
\<close>

definition analyze_intent :: "ACPMessage \<Rightarrow> exn + pyval" where
  "analyze_intent m =
     (if py_truthy (intent m) then Inr (intent m)
      else (case message m of
              PStr t \<Rightarrow>
                (let message_lower = py_lower t in
                 if list_ex (str_contains message_lower)
                      [''crop'', ''plant'', ''grow'', ''harvest'']
                 then Inr (PStr ''get_crop_advice'')
                 else if list_ex (str_contains message_lower)
                      [''weather'', ''rain'', ''temperature'', ''climate'']
                 then Inr (PStr ''get_weather'')
                 else if list_ex (str_contains message_lower)
                      [''pest'', ''disease'', ''insect'', ''treatment'']
                 then Inr (PStr ''pest_control'')
                 else if list_ex (str_contains message_lower)
                      [''soil'', ''ph'', ''nutrient'', ''fertilizer'']
                 then Inr (PStr ''soil_analysis'')
                 else if list_ex (str_contains message_lower)
                      [''price'', ''market'', ''cost'', ''sell'']
                 then Inr (PStr ''market_prices'')
                 else Inr (PStr ''general_help''))
            | v \<Rightarrow> Inl (no_attribute v ''lower'')))"





section \<open>The world: registry, session store, reasoning log, routing tables\<close>

text \<open>
  A handler is what an agent's \<open>invoke(message, context)\<close> does: it returns a text or
  raises an \<open>Exception\<close> (\<open>Inl\<close>).  Handlers are taken as functions of their two
  arguments.  A registered agent is any object: what the router asks of it is whether it is
  truthy and whether it has an \<open>invoke\<close> attribute.
\<close>

type_synonym handler = "string \<Rightarrow> pydict \<Rightarrow> exn + string"

datatype agent = Agent (agent_truthy: bool) (agent_invoke: "handler option")

text \<open>The dataclass \<open>AgentMetadata\<close>; as for messages, the annotations are not enforced.\<close>

record AgentMetadata =
  name :: string
  description :: pyval
  capabilities :: pyval
  intents :: pyval
  version :: pyval
  is_active :: pyval
  config :: pyval

text \<open>
  The objects an \<open>AgentOrchestrator\<close> owns, as one state: the registry's two
  dictionaries, the in-memory session store (\<open>MemoryManager._memory\<close>, used when
  Firestore is not available), the in-memory reasoning log (\<open>ReasoningLogger._logs\<close>),
  the router's two tables, the warnings and errors written to Python's \<open>logging\<close>
  (records below the default level WARNING are dropped), and the clock with the index of
  its next reading.  A tool chain step \<open>{"agent": a, "purpose": p}\<close> is the pair \<open>(a, p)\<close>.
\<close>

record world =
  agents :: "(string \<times> agent) list"
  metadata :: "(string \<times> AgentMetadata) list"
  memory :: "(string \<times> pydict) list"
  logs :: "(string \<times> pyval list) list"
  intent_mapping :: "(string \<times> string list) list"
  tool_chains :: "(string \<times> (string \<times> string) list) list"
  diag :: "(string \<times> string) list"
  clock :: clock
  ticks :: nat

text \<open>One reading of the clock.\<close>

definition tick :: "world \<Rightarrow> reading \<times> world" where
  "tick w = (clock w (ticks w), w\<lparr>ticks := Suc (ticks w)\<rparr>)"

subsection \<open>Handler registry (agent\_registry.py)\<close>

definition metadata_fields :: "string list" where
  "metadata_fields = [''description'', ''capabilities'', ''intents'', ''version'',
                      ''is_active'', ''config'']"

text \<open>
  \<open>AgentMetadata(name=name, **kw)\<close> followed by \<open>__post_init__\<close>.  A key \<open>name\<close> in
  \<open>kw\<close> collides with the explicit keyword before the call is made; any other key that is
  not a field is refused by \<open>__init__\<close>.  Absent fields take the declared defaults, and
  \<open>__post_init__\<close> replaces a \<open>None\<close> in \<open>capabilities\<close>, \<open>intents\<close> and \<open>config\<close>.
\<close>

definition AgentMetadata_new :: "string \<Rightarrow> pydict \<Rightarrow> exn + AgentMetadata" where
  "AgentMetadata_new nm kw =
     (if dict_has kw ''name''
      then Inl (TypeError (''gcp_agentor.agent_registry.AgentMetadata() got multiple values ''
                           @ ''for keyword argument '' @ quoted ''name''))
      else (case find (\<lambda>k. k \<notin> set metadata_fields) (map fst kw) of
              Some k \<Rightarrow> Inl (TypeError (bad_keyword_msg ''AgentMetadata'' k))
            | None \<Rightarrow>
                (let caps = (case map_of kw ''capabilities'' of None \<Rightarrow> PNone | Some v \<Rightarrow> v);
                     ints = (case map_of kw ''intents'' of None \<Rightarrow> PNone | Some v \<Rightarrow> v);
                     conf = (case map_of kw ''config'' of None \<Rightarrow> PNone | Some v \<Rightarrow> v)
                 in Inr \<lparr>name = nm,
                      description =
                        (case map_of kw ''description'' of None \<Rightarrow> PStr [] | Some v \<Rightarrow> v),
                      capabilities = (if caps = PNone then PList [] else caps),
                      intents = (if ints = PNone then PList [] else ints),
                      version =
                        (case map_of kw ''version'' of None \<Rightarrow> PStr ''1.0.0'' | Some v \<Rightarrow> v),
                      is_active =
                        (case map_of kw ''is_active'' of None \<Rightarrow> PBool True | Some v \<Rightarrow> v),
                      config = (if conf = PNone then PDict [] else conf)\<rparr>)))"

text \<open>
  \<open>register\<close>.  The warning is logged, the agent is stored, and only then the metadata
  is built: when that raises, the exception leaves \<open>register\<close> with the agent already
  stored.  \<open>metadata or {}\<close> is the empty dictionary for \<open>None\<close> and the dictionary
  itself otherwise.  The result is the raised exception or \<open>None\<close> (unit), with the new
  state.
\<close>

definition register :: "world \<Rightarrow> string \<Rightarrow> agent \<Rightarrow> pydict option \<Rightarrow> (exn + unit) \<times> world" where
  "register w nm a md =
     (let w1 = (if dict_has (agents w) nm
                then w\<lparr>diag := diag w @ [(''WARNING'',
                        ''Agent '' @ quoted nm @ '' already registered. Overwriting.'')]\<rparr>
                else w);
          w2 = w1\<lparr>agents := dict_set nm a (agents w1)\<rparr>
      in (case AgentMetadata_new nm (case md of None \<Rightarrow> [] | Some d \<Rightarrow> d) of
            Inl e \<Rightarrow> (Inl e, w2)
          | Inr agent_metadata \<Rightarrow>
              (Inr (), w2\<lparr>metadata := dict_set nm agent_metadata (metadata w2)\<rparr>)))"

definition get_agent :: "world \<Rightarrow> string \<Rightarrow> agent option" where
  "get_agent w nm = map_of (agents w) nm"


definition is_registered :: "world \<Rightarrow> string \<Rightarrow> bool" where
  "is_registered w nm = dict_has (agents w) nm"

definition list_active :: "world \<Rightarrow> string list" where
  "list_active w = map fst (filter (\<lambda>(nm, md). py_truthy (is_active md)) (metadata w))"

text \<open>\<open>x in v\<close> for a string \<open>x\<close>: membership in a list, substring of a string, key of
  a dictionary; any other right operand is not iterable.\<close>

fun str_in :: "string \<Rightarrow> pyval \<Rightarrow> exn + bool" where
  "str_in x (PList l) = Inr (List.member l (PStr x))"
| "str_in x (PStr s) = Inr (str_contains s x)"
| "str_in x (PDict d) = Inr (dict_has d x)"
| "str_in x v = Inl (TypeError (''argument of type '' @ quoted (py_type_name v)
                                @ '' is not iterable''))"

text \<open>
  \<open>list_by_intent\<close>: the comprehension over \<open>_metadata.items()\<close> with the condition
  \<open>metadata.intents and intent in metadata.intents and metadata.is_active\<close>, evaluated
  left to right; an exception in the condition ends the comprehension.
\<close>

fun by_intent :: "string \<Rightarrow> (string \<times> AgentMetadata) list \<Rightarrow> exn + string list" where
  "by_intent i [] = Inr []"
| "by_intent i ((nm, md) # rest) =
     (if \<not> py_truthy (intents md) then by_intent i rest
      else (case str_in i (intents md) of
              Inl e \<Rightarrow> Inl e
            | Inr False \<Rightarrow> by_intent i rest
            | Inr True \<Rightarrow>
                (if py_truthy (is_active md)
                 then (case by_intent i rest of Inl e \<Rightarrow> Inl e | Inr ns \<Rightarrow> Inr (nm # ns))
                 else by_intent i rest)))"

definition list_by_intent :: "world \<Rightarrow> string \<Rightarrow> exn + string list" where
  "list_by_intent w i = by_intent i (metadata w)"


subsection \<open>Session store (memory.py, in-memory mode)\<close>

definition session_key :: "string \<Rightarrow> string" where
  "session_key user_id = ''user_'' @ user_id"

text \<open>\<open>get_session\<close>: the stored document, or an empty dictionary.\<close>

definition get_session :: "world \<Rightarrow> string \<Rightarrow> pydict" where
  "get_session w user_id =
     (case map_of (memory w) (session_key user_id) of None \<Rightarrow> [] | Some s \<Rightarrow> s)"

definition save_session :: "world \<Rightarrow> string \<Rightarrow> pydict \<Rightarrow> world" where
  "save_session w user_id data = w\<lparr>memory := dict_set (session_key user_id) data (memory w)\<rparr>"

text \<open>\<open>xs[-100:]\<close>: the last hundred elements, or all of them when there are fewer.\<close>

definition last_100 :: "'a list \<Rightarrow> 'a list" where
  "last_100 xs = drop (length xs - 100) xs"

text \<open>
  \<open>add_conversation_message\<close>.  The session's history is created empty when the
  session has none; the entry gets a timestamp when it has none; it is appended; a history
  longer than 100 is cut to its last 100; \<open>last_updated\<close> is set and the session saved.
  A stored \<open>conversation_history\<close> that is not a list has no \<open>append\<close>: the call raises,
  after the clock was read for the timestamp.  The result carries the entry as stamped.
\<close>

definition add_conversation_message ::
  "world \<Rightarrow> string \<Rightarrow> pydict \<Rightarrow> (exn + pydict) \<times> world" where
  "add_conversation_message w user_id msg =
     (let session = get_session w user_id;
          session1 = (if \<not> dict_has session ''conversation_history''
                      then dict_set ''conversation_history'' (PList []) session
                      else session);
          (msg1, w1) = (if \<not> dict_has msg ''timestamp''
                        then (dict_set ''timestamp'' (PStr (utc_iso (fst (tick w)))) msg,
                              snd (tick w))
                        else (msg, w))
      in (case (case map_of session1 ''conversation_history'' of
                  None \<Rightarrow> PList [] | Some v \<Rightarrow> v) of
            PList h \<Rightarrow>
              (let h1 = h @ [PDict msg1];
                   h2 = (if length h1 > 100 then last_100 h1 else h1);
                   session2 = dict_set ''conversation_history'' (PList h2) session1;
                   session3 = dict_set ''last_updated'' (PStr (utc_iso (fst (tick w1)))) session2
               in (Inr msg1, save_session (snd (tick w1)) user_id session3))
          | v \<Rightarrow> (Inl (no_attribute v ''append''), w1)))"

text \<open>The stored history of a session document, when it is a list (empty when the
  document has none); \<open>list_history\<close> says that the document has no history of another
  type.\<close>

definition history_of :: "pydict \<Rightarrow> pyval list" where
  "history_of session =
     (case map_of session ''conversation_history'' of Some (PList h) \<Rightarrow> h | _ \<Rightarrow> [])"

definition list_history :: "pydict \<Rightarrow> bool" where
  "list_history session =
     (case map_of session ''conversation_history'' of
        None \<Rightarrow> True | Some (PList h) \<Rightarrow> True | Some _ \<Rightarrow> False)"

text \<open>An entry as it is stored: the entry itself when it came with a timestamp, else the
  entry with a timestamp string set.\<close>

definition stamped_from :: "pydict \<Rightarrow> pydict \<Rightarrow> bool" where
  "stamped_from msg s =
     (if dict_has msg ''timestamp'' then s = msg
      else (case map_of s ''timestamp'' of
              Some (PStr ts) \<Rightarrow> s = dict_set ''timestamp'' (PStr ts) msg
            | _ \<Rightarrow> False))"

text \<open>Appending a sequence of entries one after the other, stopping at the first call
  that raises.\<close>

fun add_all :: "world \<Rightarrow> string \<Rightarrow> pydict list \<Rightarrow> (exn + pydict list) \<times> world" where
  "add_all w user_id [] = (Inr [], w)"
| "add_all w user_id (msg # msgs) =
     (case add_conversation_message w user_id msg of
        (Inl e, w1) \<Rightarrow> (Inl e, w1)
      | (Inr msg1, w1) \<Rightarrow>
          (case add_all w1 user_id msgs of
             (Inl e, w2) \<Rightarrow> (Inl e, w2)
           | (Inr stamped, w2) \<Rightarrow> (Inr (msg1 # stamped), w2)))"


subsection \<open>Reasoning log (logger.py, in-memory mode)\<close>

text \<open>
  \<open>ReasoningLogger.log\<close>: reads the clock for the entry's timestamp, and once more for a
  session id when the one given is falsy; appends the entry to the caller's list.
\<close>

definition logger_log :: "world \<Rightarrow> string \<Rightarrow> string \<Rightarrow> pydict \<Rightarrow> pyval \<Rightarrow> world" where
  "logger_log w user_id step details sid =
     (let stamp = utc_iso (fst (tick w));
          w1 = snd (tick w);
          (sid1, w2) = (if py_truthy sid then (sid, w1)
                        else (PStr (''session_'' @ str_int (utc_epoch (fst (tick w1)))),
                              snd (tick w1)));
          log_entry = [(''user_id'', PStr user_id), (''session_id'', sid1),
                       (''timestamp'', PStr stamp), (''step'', PStr step),
                       (''details'', PDict details)];
          old = (case map_of (logs w2) user_id of None \<Rightarrow> [] | Some es \<Rightarrow> es)
      in w2\<lparr>logs := dict_set user_id (old @ [PDict log_entry]) (logs w2)\<rparr>)"

definition log_intent_analysis ::
  "world \<Rightarrow> string \<Rightarrow> pyval \<Rightarrow> pyval \<Rightarrow> real \<Rightarrow> pyval \<Rightarrow> world" where
  "log_intent_analysis w user_id msg detected_intent confidence sid =
     logger_log w user_id ''intent_analysis''
       [(''message'', msg), (''detected_intent'', detected_intent),
        (''confidence'', PFloat confidence), (''alternatives'', PList [])] sid"

definition log_agent_selection ::
  "world \<Rightarrow> string \<Rightarrow> string \<Rightarrow> string \<Rightarrow> string list \<Rightarrow> string \<Rightarrow> pyval \<Rightarrow> world" where
  "log_agent_selection w user_id i selected_agent available_agents selection_reason sid =
     logger_log w user_id ''agent_selection''
       [(''intent'', PStr i), (''selected_agent'', PStr selected_agent),
        (''available_agents'', PList (map PStr available_agents)),
        (''selection_reason'', PStr selection_reason)] sid"

definition log_agent_invocation ::
  "world \<Rightarrow> string \<Rightarrow> string \<Rightarrow> string \<Rightarrow> pydict \<Rightarrow> string \<Rightarrow> real \<Rightarrow> pyval \<Rightarrow> world" where
  "log_agent_invocation w user_id agent_name input_message ctx response execution_time sid =
     logger_log w user_id ''agent_invocation''
       [(''agent_name'', PStr agent_name), (''input_message'', PStr input_message),
        (''context'', PDict ctx), (''response'', PStr response),
        (''execution_time'', PFloat execution_time)] sid"

definition log_error ::
  "world \<Rightarrow> string \<Rightarrow> string \<Rightarrow> string \<Rightarrow> pydict \<Rightarrow> pyval \<Rightarrow> world" where
  "log_error w user_id error_type error_message ctx sid =
     logger_log w user_id ''error''
       [(''error_type'', PStr error_type), (''error_message'', PStr error_message),
        (''stack_trace'', PNone), (''context'', PDict ctx)] sid"

subsection \<open>Router (router.py)\<close>

text \<open>\<open>_extract_user_id\<close>; a \<open>from_id\<close> that is not a string has no \<open>startswith\<close>.\<close>

definition extract_user_id :: "pyval \<Rightarrow> exn + string" where
  "extract_user_id f =
     (case f of
        PStr s \<Rightarrow> Inr (if starts_with s ''user:'' then drop 5 s else s)
      | v \<Rightarrow> Inl (no_attribute v ''startswith''))"

definition create_error_response :: "string \<Rightarrow> pydict" where
  "create_error_response error_message =
     [(''success'', PBool False),
      (''error'', PStr error_message),
      (''response'', PStr (''Sorry, I encountered an error: '' @ error_message)),
      (''agent'', PNone)]"

text \<open>\<open>chain_name in self._tool_chains\<close>: a list or a dictionary cannot be hashed, a
  string is looked up, any other value is no key of the table.\<close>

definition chain_lookup :: "world \<Rightarrow> pyval \<Rightarrow> exn + (string \<times> string) list option" where
  "chain_lookup w v =
     (case v of
        PStr s \<Rightarrow> Inr (map_of (tool_chains w) s)
      | PList l \<Rightarrow> Inl (TypeError (''unhashable type: '' @ quoted ''list''))
      | PDict d \<Rightarrow> Inl (TypeError (''unhashable type: '' @ quoted ''dict''))
      | _ \<Rightarrow> Inr None)"

text \<open>
  \<open>_select_agents\<close>, in the order of the source: a tool chain named by the context; the
  intent's entry in the mapping, filtered to registered agents and returned even when
  nothing is left; the registry's search by intent; the general assistant; nothing.
\<close>

definition select_agents :: "world \<Rightarrow> string \<Rightarrow> pydict \<Rightarrow> exn + string list" where
  "select_agents w i ctx =
     (let chain_name = (case map_of ctx ''tool_chain'' of None \<Rightarrow> PNone | Some v \<Rightarrow> v)
      in (case (if py_truthy chain_name then chain_lookup w chain_name else Inr None) of
            Inl e \<Rightarrow> Inl e
          | Inr (Some steps) \<Rightarrow> Inr (map fst steps)
          | Inr None \<Rightarrow>
              (case map_of (intent_mapping w) i of
                 Some mapped \<Rightarrow> Inr (filter (is_registered w) mapped)
               | None \<Rightarrow>
                   (case list_by_intent w i of
                      Inl e \<Rightarrow> Inl e
                    | Inr agents_by_intent \<Rightarrow>
                        if agents_by_intent \<noteq> [] then Inr agents_by_intent
                        else if is_registered w ''general_assistant''
                        then Inr [''general_assistant'']
                        else Inr []))))"

text \<open>
  \<open>_prepare_context\<close>: the caller's stored context overlaid by the message's, then
  \<open>user_id\<close> and a \<open>time.time()\<close> timestamp.  Unpacking a stored context that is not a
  dictionary raises.
\<close>

definition prepare_context :: "world \<Rightarrow> string \<Rightarrow> pydict \<Rightarrow> (exn + pydict) \<times> world" where
  "prepare_context w user_id message_context =
     (let session = get_session w user_id;
          user_context = (if session \<noteq> [] \<and> dict_has session ''context''
                          then (case map_of session ''context'' of
                                  Some v \<Rightarrow> v | None \<Rightarrow> PDict [])
                          else PDict [])
      in (case user_context of
            PDict uc \<Rightarrow>
              (let combined = dict_merge uc message_context;
                   combined1 = dict_set ''user_id'' (PStr user_id) combined;
                   combined2 = dict_set ''timestamp'' (PFloat (time_float (fst (tick w))))
                                 combined1
               in (Inr combined2, snd (tick w)))
          | v \<Rightarrow> (Inl (TypeError (quoted (py_type_name v) @ '' object is not a mapping'')),
                   w)))"

text \<open>\<open>AgentInvoker.invoke\<close> with the default agent type: the placeholder answer of
  \<open>_invoke_local_agent\<close>.\<close>

definition invoker_invoke :: "string \<Rightarrow> string \<Rightarrow> string" where
  "invoker_invoke agent_name msg =
     ''Local agent '' @ quoted agent_name @ '' response: '' @ msg"

text \<open>The \<open>except\<close> branch of \<open>_invoke_single_agent\<close>.\<close>

definition single_failed :: "world \<Rightarrow> string \<Rightarrow> string \<Rightarrow> pyval \<Rightarrow> exn \<Rightarrow> pydict \<times> world" where
  "single_failed w agent_name user_id sid e =
     (let w1 = snd (tick w);
          w2 = log_error w1 user_id ''agent_invocation_error'' (exn_str e)
                 [(''agent'', PStr agent_name)] sid
      in (create_error_response (''Agent '' @ agent_name @ '' failed: '' @ exn_str e), w2))"

text \<open>
  \<open>_invoke_single_agent\<close>.  An agent that is absent or falsy gives the "not found"
  envelope; an exception of \<open>_prepare_context\<close> or of the handler goes to the \<open>except\<close>
  branch; an agent without \<open>invoke\<close> is called through the invoker.
\<close>

definition invoke_single_agent ::
  "world \<Rightarrow> string \<Rightarrow> string \<Rightarrow> pydict \<Rightarrow> string \<Rightarrow> pyval \<Rightarrow> pydict \<times> world" where
  "invoke_single_agent w agent_name msg message_context user_id sid =
     (let start_time = time_float (fst (tick w));
          w0 = snd (tick w)
      in (case get_agent w0 agent_name of
            None \<Rightarrow> (create_error_response (''Agent '' @ agent_name @ '' not found''), w0)
          | Some a \<Rightarrow>
              if \<not> agent_truthy a
              then (create_error_response (''Agent '' @ agent_name @ '' not found''), w0)
              else (case prepare_context w0 user_id message_context of
                      (Inl e, w1) \<Rightarrow> single_failed w1 agent_name user_id sid e
                    | (Inr ctx, w1) \<Rightarrow>
                        (case (case agent_invoke a of
                                 Some h \<Rightarrow> h msg ctx
                               | None \<Rightarrow> Inr (invoker_invoke agent_name msg)) of
                           Inl e \<Rightarrow> single_failed w1 agent_name user_id sid e
                         | Inr response \<Rightarrow>
                             (let execution_time = time_float (fst (tick w1)) - start_time;
                                  w2 = snd (tick w1);
                                  w3 = log_agent_invocation w2 user_id agent_name msg ctx
                                         response execution_time sid
                              in ([(''success'', PBool True),
                                   (''agent'', PStr agent_name),
                                   (''response'', PStr response),
                                   (''context'', PDict ctx)], w3))))))"

text \<open>The entries of \<open>chain_results\<close>: a step that returned, a step that raised; and
  the dictionaries they are.\<close>

datatype step_result = StepResult string int string | StepError string int string

fun step_dict :: "step_result \<Rightarrow> pyval" where
  "step_dict (StepResult a n r) =
     PDict [(''agent'', PStr a), (''step'', PInt n), (''result'', PStr r)]"
| "step_dict (StepError a n e) =
     PDict [(''agent'', PStr a), (''step'', PInt n), (''error'', PStr e)]"

text \<open>
  \<open>_combine_tool_chain_results\<close>.  The two marks are the characters U+274C and U+2705,
  written here as their UTF-8 bytes.
\<close>

definition cross_mark :: string where
  "cross_mark = [CHR 0xE2, CHR 0x9D, CHR 0x8C]"

definition check_mark :: string where
  "check_mark = [CHR 0xE2, CHR 0x9C, CHR 0x85]"

fun combine_line :: "step_result \<Rightarrow> string" where
  "combine_line (StepError a n e) = cross_mark @ '' '' @ a @ '': '' @ e"
| "combine_line (StepResult a n r) = check_mark @ '' '' @ a @ '': '' @ r"

fun join_lines :: "string list \<Rightarrow> string" where
  "join_lines [] = []"
| "join_lines [l] = l"
| "join_lines (l # l' # ls) = l @ [CHR 0x0A, CHR 0x0A] @ join_lines (l' # ls)"

definition combine_tool_chain_results :: "step_result list \<Rightarrow> string" where
  "combine_tool_chain_results results =
     (if results = [] then ''No results from tool chain''
      else join_lines (map combine_line results))"

text \<open>
  One iteration of the loop of \<open>_execute_tool_chain\<close>, in three parts.  Once results
  exist, the context's \<open>previous_results\<close> is the list \<open>chain_results\<close>
  (\<open>link_results\<close>).  The \<open>try\<close> body calls the agent's \<open>invoke\<close> when the agent is
  registered, truthy and has one, and the invoker otherwise (\<open>step_outcome\<close>).  A step
  that returned is recorded and logged as \<open>tool_chain_step\<close>; a step that raised is logged
  as an error and recorded with its error text (\<open>step_entry\<close>, \<open>log_step\<close>).
\<close>

definition link_results :: "step_result list \<Rightarrow> pydict \<Rightarrow> pydict" where
  "link_results results ctx =
     (if results \<noteq> [] then dict_set ''previous_results'' (PList (map step_dict results)) ctx
      else ctx)"

definition step_outcome :: "world \<Rightarrow> string \<Rightarrow> string \<Rightarrow> pydict \<Rightarrow> exn + string" where
  "step_outcome w agent_name msg ctx =
     (if is_registered w agent_name
      then (case get_agent w agent_name of
              Some a \<Rightarrow>
                (if agent_truthy a
                 then (case agent_invoke a of
                         Some h \<Rightarrow> h msg ctx
                       | None \<Rightarrow> Inr (invoker_invoke agent_name msg))
                 else Inr (invoker_invoke agent_name msg))
            | None \<Rightarrow> Inr (invoker_invoke agent_name msg))
      else Inr (invoker_invoke agent_name msg))"

definition step_entry :: "string \<Rightarrow> int \<Rightarrow> exn + string \<Rightarrow> step_result" where
  "step_entry agent_name n outcome =
     (case outcome of
        Inr result \<Rightarrow> StepResult agent_name n result
      | Inl e \<Rightarrow> StepError agent_name n (exn_str e))"

definition log_step :: "world \<Rightarrow> string \<Rightarrow> pyval \<Rightarrow> string \<Rightarrow> int \<Rightarrow> exn + string \<Rightarrow> world" where
  "log_step w user_id sid agent_name n outcome =
     (case outcome of
        Inr result \<Rightarrow>
          logger_log w user_id ''tool_chain_step''
            [(''agent'', PStr agent_name), (''step'', PInt n), (''result'', PStr result)] sid
      | Inl e \<Rightarrow>
          log_error w user_id ''tool_chain_error'' (exn_str e)
            [(''agent'', PStr agent_name), (''step'', PInt n)] sid)"

text \<open>The loop over \<open>enumerate(agents)\<close> from index \<open>n\<close> on: every agent is tried, whatever
  the earlier steps did.\<close>

fun chain_loop ::
  "world \<Rightarrow> string list \<Rightarrow> int \<Rightarrow> string \<Rightarrow> pydict \<Rightarrow> step_result list \<Rightarrow> string \<Rightarrow> pyval
     \<Rightarrow> (step_result list \<times> pydict) \<times> world" where
  "chain_loop w [] n msg ctx results user_id sid = ((results, ctx), w)"
| "chain_loop w (agent_name # rest) n msg ctx results user_id sid =
     (let ctx1 = link_results results ctx;
          outcome = step_outcome w agent_name msg ctx1
      in chain_loop (log_step w user_id sid agent_name (n + 1) outcome) rest (n + 1) msg ctx1
           (results @ [step_entry agent_name (n + 1) outcome]) user_id sid)"

text \<open>
  \<open>_execute_tool_chain\<close>.  \<open>_prepare_context\<close> runs before the loop, outside its
  \<open>try\<close>: its exception leaves the function.  The context dictionary holds the list
  \<open>chain_results\<close> itself under \<open>previous_results\<close> from the second step on, so in the
  returned envelope that entry shows all the results.
\<close>

definition execute_tool_chain ::
  "world \<Rightarrow> string list \<Rightarrow> string \<Rightarrow> pydict \<Rightarrow> string \<Rightarrow> pyval \<Rightarrow> (exn + pydict) \<times> world" where
  "execute_tool_chain w agent_names msg message_context user_id sid =
     (case prepare_context w user_id message_context of
        (Inl e, w1) \<Rightarrow> (Inl e, w1)
      | (Inr ctx, w1) \<Rightarrow>
          (case chain_loop w1 agent_names 0 msg ctx [] user_id sid of
             ((chain_results, ctx1), w2) \<Rightarrow>
               (let ctx2 = (if length agent_names \<ge> 2
                            then dict_set ''previous_results''
                                   (PList (map step_dict chain_results)) ctx1
                            else ctx1)
                in (Inr [(''success'', PBool True),
                         (''tool_chain'', PBool True),
                         (''agents'', PList (map PStr agent_names)),
                         (''response'', PStr (combine_tool_chain_results chain_results)),
                         (''step_results'', PList (map step_dict chain_results)),
                         (''context'', PDict ctx2)], w2))))"

text \<open>The \<open>except\<close> branch of \<open>route\<close>.\<close>

definition route_failed :: "world \<Rightarrow> exn \<Rightarrow> pydict \<times> world" where
  "route_failed w e =
     (create_error_response (''Routing error: '' @ exn_str e),
      w\<lparr>diag := diag w @ [(''ERROR'', ''Error in routing: '' @ exn_str e)]\<rparr>)"

text \<open>
  \<open>route\<close> is given in four parts, in the order of its body.

  Dispatch (source lines 113 to 117): more than one selected agent runs as a tool chain,
  a single one through \<open>_invoke_single_agent\<close>, which returns an envelope and raises
  nothing.
\<close>

definition dispatch ::
  "world \<Rightarrow> string \<Rightarrow> string list \<Rightarrow> string \<Rightarrow> pydict \<Rightarrow> string \<Rightarrow> pyval
     \<Rightarrow> (exn + pydict) \<times> world" where
  "dispatch w first others msg message_context user_id sid =
     (if length (first # others) > 1
      then execute_tool_chain w (first # others) msg message_context user_id sid
      else (case invoke_single_agent w first msg message_context user_id sid of
              (response, w1) \<Rightarrow> (Inr response, w1)))"

text \<open>
  The end of \<open>route\<close> (lines 119 to 135): the elapsed time, the \<open>response_sent\<close> log
  entry, and the three annotations.  The log entry holds the response dictionary itself,
  which is annotated after the entry is written, so the stored entry shows the annotated
  response.
\<close>

definition annotate :: "pydict \<Rightarrow> real \<Rightarrow> pyval \<Rightarrow> string \<Rightarrow> pydict" where
  "annotate response execution_time sid user_id =
     dict_set ''user_id'' (PStr user_id)
       (dict_set ''session_id'' sid
         (dict_set ''execution_time'' (PFloat execution_time) response))"

definition respond :: "world \<Rightarrow> real \<Rightarrow> string \<Rightarrow> pyval \<Rightarrow> pydict \<Rightarrow> pydict \<times> world" where
  "respond w start_time user_id sid response =
     (let execution_time = time_float (fst (tick w)) - start_time;
          w1 = snd (tick w);
          response1 = annotate response execution_time sid user_id
      in (response1,
          logger_log w1 user_id ''response_sent''
            [(''response'', PDict response1), (''execution_time'', PFloat execution_time)]
            sid))"

text \<open>
  From the selection of agents on (lines 101 to 135), for a resolved intent \<open>i\<close>, a text
  \<open>msg\<close> and the message's context.  No selected agent ends the call with the plain
  error envelope.
\<close>

definition route_intent ::
  "world \<Rightarrow> real \<Rightarrow> string \<Rightarrow> pyval \<Rightarrow> string \<Rightarrow> string \<Rightarrow> pydict \<Rightarrow> pydict \<times> world" where
  "route_intent w start_time user_id sid i msg message_context =
     (case select_agents w i message_context of
        Inl e \<Rightarrow> route_failed w e
      | Inr [] \<Rightarrow> (create_error_response (''No agent found for intent: '' @ i), w)
      | Inr (first # others) \<Rightarrow>
          (let sid1 = (if py_truthy sid then sid else PStr ''default'');
               w1 = log_agent_selection w user_id i first (list_active w)
                      ''Intent-based routing'' sid1
           in (case dispatch w1 first others msg message_context user_id sid1 of
                 (Inl e, w2) \<Rightarrow> route_failed w2 e
               | (Inr response, w2) \<Rightarrow> respond w2 start_time user_id sid response)))"

text \<open>
  \<open>route\<close> itself (lines 75 to 99 and the \<open>except\<close> branch).  The steps after
  validation are modelled for messages whose resolved intent and text are strings, as the
  dataclass declares them; on a valid message outside that the model gives no answer
  (\<open>None\<close>).  A valid message's context is a dictionary.
\<close>

definition route :: "world \<Rightarrow> pydict \<Rightarrow> (pydict \<times> world) option" where
  "route w acp_message =
     (let start_time = time_float (fst (tick w));
          w0 = snd (tick w)
      in (case from_dict (clock w0) (ticks w0) acp_message of
            Inl e \<Rightarrow> Some (route_failed w0 e)
          | Inr (m, t1) \<Rightarrow>
              (let w1 = w0\<lparr>ticks := t1\<rparr>
               in if \<not> is_valid m
                  then Some (create_error_response ''Invalid ACP message format'', w1)
                  else (case extract_user_id (from_id m) of
                          Inl e \<Rightarrow> Some (route_failed w1 e)
                        | Inr user_id \<Rightarrow>
                            (let sid = session_id m;
                                 w2 = logger_log w1 user_id ''message_received''
                                        [(''message'', PDict (to_dict m))] sid
                             in (case analyze_intent m of
                                   Inl e \<Rightarrow> Some (route_failed w2 e)
                                 | Inr resolved \<Rightarrow>
                                     (let w3 = log_intent_analysis w2 user_id (message m)
                                                 resolved (9 / 10) sid
                                      in (case (resolved, message m, msg_context m) of
                                            (PStr i, PStr msg, PDict message_context) \<Rightarrow>
                                              Some (route_intent w3 start_time user_id sid i
                                                      msg message_context)
                                          | _ \<Rightarrow> None))))))))"

subsection \<open>Orchestrator (core.py, \<open>handle_message\<close>)\<close>

text \<open>The \<open>except\<close> branch of \<open>handle_message\<close>.\<close>

definition orchestrator_failed :: "world \<Rightarrow> exn \<Rightarrow> pydict \<times> world" where
  "orchestrator_failed w e =
     ([(''success'', PBool False),
       (''error'', PStr (''Orchestrator error: '' @ exn_str e)),
       (''response'', PStr ''Sorry, I encountered an error processing your request.'')],
      w\<lparr>diag := diag w @ [(''ERROR'', ''Error handling message: '' @ exn_str e)]\<rparr>)"

text \<open>
  \<open>handle_message\<close>: builds and validates the message itself, calls \<open>route\<close> with the
  same dictionary (which builds the message again), and then stores the exchange in the
  caller's conversation history.
\<close>

definition handle_message :: "world \<Rightarrow> pydict \<Rightarrow> (pydict \<times> world) option" where
  "handle_message w acp_message =
     (case from_dict (clock w) (ticks w) acp_message of
        Inl e \<Rightarrow> Some (orchestrator_failed w e)
      | Inr (m, t1) \<Rightarrow>
          (let w1 = w\<lparr>ticks := t1\<rparr>
           in if \<not> is_valid m
              then Some ([(''success'', PBool False),
                          (''error'', PStr ''Invalid ACP message format''),
                          (''response'', PStr ''Please provide a valid message format.'')], w1)
              else (case route w1 acp_message of
                      None \<Rightarrow> None
                    | Some (response, w2) \<Rightarrow>
                        (case extract_user_id (from_id m) of
                           Inl e \<Rightarrow> Some (orchestrator_failed w2 e)
                         | Inr user_id \<Rightarrow>
                             (case add_conversation_message w2 user_id
                                     [(''message'', PDict (to_dict m)),
                                      (''response'', PDict response)] of
                                (Inl e, w3) \<Rightarrow> Some (orchestrator_failed w3 e)
                              | (Inr entry, w3) \<Rightarrow> Some (response, w3))))))"


section \<open>Sample inputs\<close>

text \<open>A clock that starts at the epoch and advances one second per reading (the seconds
  wrap after ten readings).\<close>

definition clock0 :: clock where
  "clock0 n = \<lparr>time_float = real (n mod 10),
                utc_iso = ''1970-01-01T00:00:0'' @ str_nat (n mod 10),
                utc_epoch = int (n mod 10)\<rparr>"


text \<open>A world with nothing registered and nothing stored, the router's tables as
  \<open>AgentRouter.__init__\<close> seeds them.\<close>

definition default_intent_mapping :: "(string \<times> string list) list" where
  "default_intent_mapping =
     [(''get_crop_advice'', [''crop_advisor'']),
      (''get_weather'', [''weather'']),
      (''pest_control'', [''pest_assistant'']),
      (''soil_analysis'', [''soil_analyzer'']),
      (''market_prices'', [''market_agent'']),
      (''general_help'', [''general_assistant''])]"

definition default_tool_chains :: "(string \<times> (string \<times> string) list) list" where
  "default_tool_chains =
     [(''comprehensive_advice'',
        [(''weather'', ''get_weather_data''),
         (''crop_advisor'', ''get_crop_recommendations''),
         (''pest_assistant'', ''get_pest_advice'')])]"

definition world0 :: world where
  "world0 = \<lparr>agents = [], metadata = [], memory = [], logs = [],
              intent_mapping = default_intent_mapping, tool_chains = default_tool_chains,
              diag = [], clock = clock0, ticks = 0\<rparr>"


definition failing_agent :: "string \<Rightarrow> agent" where
  "failing_agent e = Agent True (Some (\<lambda>msg ctx. Inl (Exception e)))"

text \<open>The dictionary of a message from \<open>user:alice\<close> with the given intent, text and
  context, the other fields left to their defaults.\<close>

definition sample_dict :: "string \<Rightarrow> string \<Rightarrow> pydict \<Rightarrow> pydict" where
  "sample_dict i msg ctx =
     [(''from_id'', PStr ''user:alice''), (''to_id'', PStr ''agent:router''),
      (''intent'', PStr i), (''message'', PStr msg), (''context'', PDict ctx)]"

text \<open>Worlds with agents registered under the given names.\<close>

definition world_with :: "(string \<times> agent) list \<Rightarrow> world" where
  "world_with as = fold (\<lambda>(nm, a) w. snd (register w nm a None)) as world0"


section \<open>Dictionaries\<close>

lemma map_of_dict_set: "map_of (dict_set k v d) = (map_of d)(k \<mapsto> v)"
  by (induction d) (auto simp: fun_eq_iff)

lemma dict_has_dict_set: "dict_has (dict_set k v d) k' \<longleftrightarrow> k' = k \<or> dict_has d k'"
  by (simp add: dict_has_def map_of_dict_set)

section \<open>Properties of the message contract\<close>

lemma str_nat_digit: "n < 10 \<Longrightarrow> str_nat n = [digit_char n]"
  by (subst str_nat.simps) simp

lemma post_init_fields:
  "from_id (fst (post_init clk t m)) = from_id m"
  "to_id (fst (post_init clk t m)) = to_id m"
  "intent (fst (post_init clk t m)) = intent m"
  "message (fst (post_init clk t m)) = message m"
  "language (fst (post_init clk t m)) = language m"
  "msg_context (fst (post_init clk t m)) =
     (if msg_context m = PNone then PDict [] else msg_context m)"
  by (simp_all add: post_init_def Let_def split: prod.splits)

lemma post_init_filled:
  "msg_context (fst (post_init clk t m)) \<noteq> PNone"
  "timestamp (fst (post_init clk t m)) \<noteq> PNone"
  "session_id (fst (post_init clk t m)) \<noteq> PNone"
  by (simp_all add: post_init_def Let_def split: prod.splits)



text \<open>
  C5.  For every constructed message (any eight arguments, defaults filled by
  \<open>__post_init__\<close>), \<open>is_valid\<close> is true exactly when \<open>from_id\<close>, \<open>to_id\<close>, \<open>intent\<close> and
  \<open>message\<close> are not \<open>None\<close>, \<open>language\<close> is a string of length at least 2 and \<open>context\<close>
  is a mapping.  An empty-string intent is a value other than \<open>None\<close>, so it counts as
  present.  \<open>is_valid\<close> is a function of the message only, it has no state to change.
\<close>

theorem is_valid_iff:
  "is_valid (fst (ACPMessage_new clk t f_id t_id i msg lang ctx ts sid)) \<longleftrightarrow>
     f_id \<noteq> PNone \<and> t_id \<noteq> PNone \<and> i \<noteq> PNone \<and> msg \<noteq> PNone \<and>
     (\<exists>s. lang = PStr s \<and> 2 \<le> length s) \<and>
     (\<exists>d. msg_context (fst (ACPMessage_new clk t f_id t_id i msg lang ctx ts sid)) = PDict d)"
proof -
  let ?m = "fst (ACPMessage_new clk t f_id t_id i msg lang ctx ts sid)"
  have ctx: "msg_context ?m \<noteq> PNone"
    by (simp add: ACPMessage_new_def post_init_filled)
  have fields: "from_id ?m = f_id" "to_id ?m = t_id" "intent ?m = i" "message ?m = msg"
    "language ?m = lang"
    by (simp_all add: ACPMessage_new_def post_init_fields)
  have lang: "(is_str lang \<and> \<not> str_len lang < 2) \<longleftrightarrow> (\<exists>s. lang = PStr s \<and> 2 \<le> length s)"
    by (cases lang) (auto simp: is_str_def str_len_def)
  have dict: "is_dict (msg_context ?m) \<longleftrightarrow> (\<exists>d. msg_context ?m = PDict d)"
    by (cases "msg_context ?m") (auto simp: is_dict_def)
  show ?thesis
    unfolding is_valid_def fields using ctx lang dict by auto
qed

theorem is_valid_iff_witness:
  "is_valid (fst (ACPMessage_new clock0 0 (PStr ''user:alice'') (PStr ''agent:router'')
       (PStr []) (PStr ''hello'') (PStr ''en-US'') PNone PNone PNone)) \<and>
   \<not> is_valid (fst (ACPMessage_new clock0 0 (PStr ''user:alice'') (PStr ''agent:router'')
       (PStr []) (PStr ''hello'') (PStr ''e'') PNone PNone PNone)) \<and>
   \<not> is_valid (fst (ACPMessage_new clock0 0 (PStr ''user:alice'') (PStr ''agent:router'')
       PNone (PStr ''hello'') (PStr ''en-US'') PNone PNone PNone)) \<and>
   \<not> is_valid (fst (ACPMessage_new clock0 0 (PStr ''user:alice'') (PStr ''agent:router'')
       (PStr []) (PStr ''hello'') (PStr ''en-US'') (PList []) PNone PNone))"
  using is_valid_iff [of clock0 0 "PStr ''user:alice''" "PStr ''agent:router''" "PStr []"
          "PStr ''hello''" "PStr ''en-US''" PNone PNone PNone]
        is_valid_iff [of clock0 0 "PStr ''user:alice''" "PStr ''agent:router''" "PStr []"
          "PStr ''hello''" "PStr ''e''" PNone PNone PNone]
        is_valid_iff [of clock0 0 "PStr ''user:alice''" "PStr ''agent:router''" PNone
          "PStr ''hello''" "PStr ''en-US''" PNone PNone PNone]
        is_valid_iff [of clock0 0 "PStr ''user:alice''" "PStr ''agent:router''" "PStr []"
          "PStr ''hello''" "PStr ''en-US''" "PList []" PNone PNone]
  by (simp add: ACPMessage_new_def post_init_fields)



section \<open>Properties of intent resolution\<close>








section \<open>Properties of the registry\<close>






section \<open>Properties of the session store\<close>

lemma last_100_short: "length xs \<le> 100 \<Longrightarrow> last_100 xs = xs"
  by (simp add: last_100_def)

lemma length_last_100: "length (last_100 xs) \<le> 100"
  by (simp add: last_100_def)

lemma last_100_append: "last_100 (last_100 xs @ ys) = last_100 (xs @ ys)"
proof (cases "length xs \<le> 100")
  case True
  then show ?thesis by (simp add: last_100_def)
next
  case False
  then have "length xs + length ys - (length xs - 100 + 100) + (length xs - 100)
      = length xs + length ys - 100"
    by arith
  with False show ?thesis by (simp add: last_100_def)
qed

lemma last_100_105: "length ys = 105 \<Longrightarrow> last_100 (xs @ ys) = drop 5 ys"
  by (simp add: last_100_def)

lemma get_session_ticks [simp]: "get_session (w\<lparr>ticks := n\<rparr>) u = get_session w u"
  by (simp add: get_session_def)

lemma get_session_save [simp]: "get_session (save_session w u s) u = s"
  by (simp add: get_session_def save_session_def map_of_dict_set)

lemma stamped_from_stamp:
  "\<not> dict_has msg ''timestamp'' \<Longrightarrow> stamped_from msg (dict_set ''timestamp'' (PStr ts) msg)"
  by (simp add: stamped_from_def map_of_dict_set)

lemma add_one:
  assumes "list_history (get_session w u)"
  shows "\<exists>msg1. fst (add_conversation_message w u msg) = Inr msg1 \<and> stamped_from msg msg1 \<and>
           map_of (get_session (snd (add_conversation_message w u msg)) u) ''conversation_history''
             = Some (PList (last_100 (history_of (get_session w u) @ [PDict msg1])))"
proof (cases "map_of (get_session w u) ''conversation_history''")
  case None
  then show ?thesis
    by (auto simp: add_conversation_message_def Let_def dict_has_def map_of_dict_set tick_def
          history_of_def stamped_from_stamp stamped_from_def last_100_def split: prod.splits)
next
  case (Some v)
  with assms obtain h where h: "v = PList h"
    by (cases v) (auto simp: list_history_def)
  show ?thesis
    using Some h
    by (auto simp: add_conversation_message_def Let_def dict_has_def map_of_dict_set tick_def
          history_of_def stamped_from_stamp stamped_from_def last_100_def split: prod.splits)
qed

lemma list_history_after:
  assumes "list_history (get_session w u)"
  shows "list_history (get_session (snd (add_conversation_message w u msg)) u)"
  using add_one [OF assms, of msg] by (auto simp: list_history_def)

lemma history_after:
  assumes "list_history (get_session w u)"
  shows "history_of (get_session (snd (add_conversation_message w u msg)) u) =
           last_100 (history_of (get_session w u) @
             [PDict (projr (fst (add_conversation_message w u msg)))])"
  using add_one [OF assms, of msg] by (auto simp: history_of_def)

lemma add_all_history:
  assumes "list_history (get_session w u)"
  shows "\<exists>stamped. fst (add_all w u msgs) = Inr stamped \<and> list_all2 stamped_from msgs stamped \<and>
           list_history (get_session (snd (add_all w u msgs)) u) \<and>
           history_of (get_session (snd (add_all w u msgs)) u) =
             (if msgs = [] then history_of (get_session w u)
              else last_100 (history_of (get_session w u) @ map PDict stamped))"
  using assms
proof (induction msgs arbitrary: w)
  case Nil
  then show ?case by simp
next
  case (Cons msg msgs)
  obtain msg1 where m1: "fst (add_conversation_message w u msg) = Inr msg1"
      "stamped_from msg msg1"
    using add_one [OF Cons.prems, of msg] by blast
  define w1 where "w1 = snd (add_conversation_message w u msg)"
  have step: "add_conversation_message w u msg = (Inr msg1, w1)"
    using m1(1) by (simp add: w1_def prod_eq_iff)
  have lh: "list_history (get_session w1 u)"
    unfolding w1_def by (rule list_history_after [OF Cons.prems])
  have h1: "history_of (get_session w1 u) = last_100 (history_of (get_session w u) @ [PDict msg1])"
    unfolding w1_def using history_after [OF Cons.prems, of msg] m1(1) by simp
  from Cons.IH [OF lh] obtain stamped where
    st: "fst (add_all w1 u msgs) = Inr stamped" "list_all2 stamped_from msgs stamped"
      "list_history (get_session (snd (add_all w1 u msgs)) u)"
      "history_of (get_session (snd (add_all w1 u msgs)) u) =
         (if msgs = [] then history_of (get_session w1 u)
          else last_100 (history_of (get_session w1 u) @ map PDict stamped))"
    by blast
  have res: "add_all w u (msg # msgs) = (Inr (msg1 # stamped), snd (add_all w1 u msgs))"
    using step st(1) by (simp split: prod.splits sum.splits) (metis fst_conv snd_conv sum.inject(2) sum.distinct(1))
  have "history_of (get_session (snd (add_all w1 u msgs)) u) =
          last_100 (history_of (get_session w u) @ map PDict (msg1 # stamped))"
  proof (cases "msgs = []")
    case True
    with st(2) have "stamped = []" by simp
    with True st(4) h1 show ?thesis by simp
  next
    case False
    with st(4) h1 show ?thesis by (simp add: last_100_append)
  qed
  with res m1(2) st(2,3) show ?case by simp
qed

text \<open>
  C8.  For a session whose stored history is a list (or that has none yet), appending
  entries one after the other succeeds; every stored entry is the appended one, stamped
  with a timestamp when it had none; after at least one append the history is the old
  history followed by the new entries in arrival order, cut at the front to its last 100,
  so it never has more than 100 entries; and after 105 appends it is exactly the last 100
  of the appended entries in arrival order.
\<close>

theorem history_keeps_last_100:
  assumes "list_history (get_session w u)"
  shows "\<exists>stamped. fst (add_all w u msgs) = Inr stamped \<and> list_all2 stamped_from msgs stamped \<and>
           (msgs \<noteq> [] \<longrightarrow>
              history_of (get_session (snd (add_all w u msgs)) u) =
                drop (length (history_of (get_session w u) @ map PDict stamped) - 100)
                  (history_of (get_session w u) @ map PDict stamped) \<and>
              length (history_of (get_session (snd (add_all w u msgs)) u)) \<le> 100) \<and>
           (length msgs = 105 \<longrightarrow>
              history_of (get_session (snd (add_all w u msgs)) u) = map PDict (drop 5 stamped))"
proof -
  obtain stamped where
    st: "fst (add_all w u msgs) = Inr stamped" "list_all2 stamped_from msgs stamped"
      "history_of (get_session (snd (add_all w u msgs)) u) =
         (if msgs = [] then history_of (get_session w u)
          else last_100 (history_of (get_session w u) @ map PDict stamped))"
    using add_all_history [OF assms, of msgs] by blast
  have len: "length stamped = length msgs"
    using st(2) by (simp add: list_all2_lengthD)
  have a: "msgs \<noteq> [] \<longrightarrow>
      history_of (get_session (snd (add_all w u msgs)) u) =
        drop (length (history_of (get_session w u) @ map PDict stamped) - 100)
          (history_of (get_session w u) @ map PDict stamped) \<and>
      length (history_of (get_session (snd (add_all w u msgs)) u)) \<le> 100"
    using st(3) length_last_100 [of "history_of (get_session w u) @ map PDict stamped"]
    by (simp add: last_100_def)
  have b: "length msgs = 105 \<longrightarrow>
      history_of (get_session (snd (add_all w u msgs)) u) = map PDict (drop 5 stamped)"
  proof
    assume l: "length msgs = 105"
    then have "msgs \<noteq> []" by auto
    with st(3) l len show "history_of (get_session (snd (add_all w u msgs)) u)
        = map PDict (drop 5 stamped)"
      by (simp add: last_100_105 drop_map)
  qed
  from st(1,2) a b show ?thesis by blast
qed

theorem history_keeps_last_100_witness:
  "(\<exists>stamped. fst (add_all world0 ''alice'' (map (\<lambda>n. [(''n'', PInt (int n))]) [0..<105]))
        = Inr stamped \<and>
      history_of (get_session (snd (add_all world0 ''alice''
          (map (\<lambda>n. [(''n'', PInt (int n))]) [0..<105]))) ''alice'') = map PDict (drop 5 stamped)) \<and>
   fst (add_all world0 ''alice''
          [[(''text'', PStr ''a'')], [(''text'', PStr ''b''), (''timestamp'', PStr ''noon'')]]) =
     Inr [[(''text'', PStr ''a''), (''timestamp'', PStr ''1970-01-01T00:00:00'')],
          [(''text'', PStr ''b''), (''timestamp'', PStr ''noon'')]] \<and>
   history_of (get_session (snd (add_all world0 ''alice''
          [[(''text'', PStr ''a'')], [(''text'', PStr ''b''), (''timestamp'', PStr ''noon'')]]))
        ''alice'') =
     [PDict [(''text'', PStr ''a''), (''timestamp'', PStr ''1970-01-01T00:00:00'')],
      PDict [(''text'', PStr ''b''), (''timestamp'', PStr ''noon'')]]"
proof -
  have lh: "list_history (get_session world0 ''alice'')"
    by (simp add: list_history_def get_session_def world0_def)
  have two: "add_all world0 ''alice''
          [[(''text'', PStr ''a'')], [(''text'', PStr ''b''), (''timestamp'', PStr ''noon'')]] =
     (Inr [[(''text'', PStr ''a''), (''timestamp'', PStr ''1970-01-01T00:00:00'')],
          [(''text'', PStr ''b''), (''timestamp'', PStr ''noon'')]],
      world0\<lparr>ticks := 3, memory := [(''user_alice'',
         [(''conversation_history'', PList
             [PDict [(''text'', PStr ''a''), (''timestamp'', PStr ''1970-01-01T00:00:00'')],
              PDict [(''text'', PStr ''b''), (''timestamp'', PStr ''noon'')]]),
          (''last_updated'', PStr ''1970-01-01T00:00:02'')])]\<rparr>)"
    by (simp add: add_conversation_message_def get_session_def save_session_def session_key_def
          world0_def clock0_def tick_def dict_has_def Let_def str_nat_digit digit_char_def)
  have many: "\<exists>stamped. fst (add_all world0 ''alice'' (map (\<lambda>n. [(''n'', PInt (int n))]) [0..<105]))
        = Inr stamped \<and>
      history_of (get_session (snd (add_all world0 ''alice''
          (map (\<lambda>n. [(''n'', PInt (int n))]) [0..<105]))) ''alice'') = map PDict (drop 5 stamped)"
    using history_keeps_last_100 [OF lh, of "map (\<lambda>n. [(''n'', PInt (int n))]) [0..<105]"]
    by auto
  have hist: "history_of (get_session (snd (add_all world0 ''alice''
          [[(''text'', PStr ''a'')], [(''text'', PStr ''b''), (''timestamp'', PStr ''noon'')]]))
        ''alice'') =
     [PDict [(''text'', PStr ''a''), (''timestamp'', PStr ''1970-01-01T00:00:00'')],
      PDict [(''text'', PStr ''b''), (''timestamp'', PStr ''noon'')]]"
    unfolding two by (simp add: history_of_def get_session_def session_key_def)
  have res: "fst (add_all world0 ''alice''
          [[(''text'', PStr ''a'')], [(''text'', PStr ''b''), (''timestamp'', PStr ''noon'')]]) =
     Inr [[(''text'', PStr ''a''), (''timestamp'', PStr ''1970-01-01T00:00:00'')],
          [(''text'', PStr ''b''), (''timestamp'', PStr ''noon'')]]"
    unfolding two by simp
  from many hist res show ?thesis
    by (intro conjI)
qed

section \<open>Frame properties of logging and dispatch\<close>

text \<open>Logging changes the reasoning log and the clock index, nothing else.\<close>

lemma tick_frame [simp]:
  "agents (snd (tick w)) = agents w" "metadata (snd (tick w)) = metadata w"
  "memory (snd (tick w)) = memory w" "intent_mapping (snd (tick w)) = intent_mapping w"
  "tool_chains (snd (tick w)) = tool_chains w" "diag (snd (tick w)) = diag w"
  "clock (snd (tick w)) = clock w" "logs (snd (tick w)) = logs w"
  by (simp_all add: tick_def)

lemma logger_log_frame [simp]:
  "agents (logger_log w u s d sid) = agents w" "metadata (logger_log w u s d sid) = metadata w"
  "memory (logger_log w u s d sid) = memory w"
  "intent_mapping (logger_log w u s d sid) = intent_mapping w"
  "tool_chains (logger_log w u s d sid) = tool_chains w" "diag (logger_log w u s d sid) = diag w"
  "clock (logger_log w u s d sid) = clock w"
  by (simp_all add: logger_log_def Let_def split: prod.splits)

lemma log_helpers_frame [simp]:
  "agents (log_error w u et em c sid) = agents w"
  "metadata (log_error w u et em c sid) = metadata w"
  "memory (log_error w u et em c sid) = memory w"
  "intent_mapping (log_error w u et em c sid) = intent_mapping w"
  "tool_chains (log_error w u et em c sid) = tool_chains w"
  "diag (log_error w u et em c sid) = diag w"
  "agents (log_intent_analysis w u m i cf sid) = agents w"
  "metadata (log_intent_analysis w u m i cf sid) = metadata w"
  "memory (log_intent_analysis w u m i cf sid) = memory w"
  "intent_mapping (log_intent_analysis w u m i cf sid) = intent_mapping w"
  "tool_chains (log_intent_analysis w u m i cf sid) = tool_chains w"
  "diag (log_intent_analysis w u m i cf sid) = diag w"
  "agents (log_agent_selection w u i' sa av r sid) = agents w"
  "metadata (log_agent_selection w u i' sa av r sid) = metadata w"
  "memory (log_agent_selection w u i' sa av r sid) = memory w"
  "intent_mapping (log_agent_selection w u i' sa av r sid) = intent_mapping w"
  "tool_chains (log_agent_selection w u i' sa av r sid) = tool_chains w"
  "diag (log_agent_selection w u i' sa av r sid) = diag w"
  "agents (log_agent_invocation w u an im cx rs et' sid) = agents w"
  "metadata (log_agent_invocation w u an im cx rs et' sid) = metadata w"
  "memory (log_agent_invocation w u an im cx rs et' sid) = memory w"
  "intent_mapping (log_agent_invocation w u an im cx rs et' sid) = intent_mapping w"
  "tool_chains (log_agent_invocation w u an im cx rs et' sid) = tool_chains w"
  "diag (log_agent_invocation w u an im cx rs et' sid) = diag w"
  by (simp_all add: log_error_def log_intent_analysis_def log_agent_selection_def
        log_agent_invocation_def)

lemma prepare_context_frame [simp]:
  "agents (snd (prepare_context w u c)) = agents w"
  "metadata (snd (prepare_context w u c)) = metadata w"
  "memory (snd (prepare_context w u c)) = memory w"
  "intent_mapping (snd (prepare_context w u c)) = intent_mapping w"
  "tool_chains (snd (prepare_context w u c)) = tool_chains w"
  "diag (snd (prepare_context w u c)) = diag w"
  by (simp_all add: prepare_context_def Let_def split: pyval.splits)

lemma single_failed_frame [simp]:
  "agents (snd (single_failed w a u sid e)) = agents w"
  "metadata (snd (single_failed w a u sid e)) = metadata w"
  "memory (snd (single_failed w a u sid e)) = memory w"
  "intent_mapping (snd (single_failed w a u sid e)) = intent_mapping w"
  "tool_chains (snd (single_failed w a u sid e)) = tool_chains w"
  "diag (snd (single_failed w a u sid e)) = diag w"
  by (simp_all add: single_failed_def Let_def)

lemma log_step_frame [simp]:
  "agents (log_step w u sid a n oc) = agents w"
  "metadata (log_step w u sid a n oc) = metadata w"
  "memory (log_step w u sid a n oc) = memory w"
  "intent_mapping (log_step w u sid a n oc) = intent_mapping w"
  "tool_chains (log_step w u sid a n oc) = tool_chains w"
  "diag (log_step w u sid a n oc) = diag w"
  by (simp_all add: log_step_def split: sum.splits)

lemma invoke_single_agent_frame [simp]:
  "memory (snd (invoke_single_agent w a msg c u sid)) = memory w"
  "agents (snd (invoke_single_agent w a msg c u sid)) = agents w"
  "diag (snd (invoke_single_agent w a msg c u sid)) = diag w"
proof -
  obtain r w1 where pc: "prepare_context (snd (tick w)) u c = (r, w1)"
    by (cases "prepare_context (snd (tick w)) u c") auto
  have fr: "memory w1 = memory w" "agents w1 = agents w" "diag w1 = diag w"
    using prepare_context_frame [of "snd (tick w)" u c] pc by simp_all
  show "memory (snd (invoke_single_agent w a msg c u sid)) = memory w"
    "agents (snd (invoke_single_agent w a msg c u sid)) = agents w"
    "diag (snd (invoke_single_agent w a msg c u sid)) = diag w"
    using pc fr
    by (simp_all add: invoke_single_agent_def Let_def split: option.splits sum.splits)
qed

lemma chain_loop_frame [simp]:
  "memory (snd (chain_loop w as n msg c rs u sid)) = memory w"
  "agents (snd (chain_loop w as n msg c rs u sid)) = agents w"
  "diag (snd (chain_loop w as n msg c rs u sid)) = diag w"
  by (induction as arbitrary: w n c rs) (simp_all add: Let_def)

lemma execute_tool_chain_frame [simp]:
  "memory (snd (execute_tool_chain w as msg c u sid)) = memory w \<and>
   agents (snd (execute_tool_chain w as msg c u sid)) = agents w \<and>
   diag (snd (execute_tool_chain w as msg c u sid)) = diag w"
proof -
  obtain r w1 where pc: "prepare_context w u c = (r, w1)"
    by (cases "prepare_context w u c") auto
  have fr: "memory w1 = memory w" "agents w1 = agents w" "diag w1 = diag w"
    using prepare_context_frame [of w u c] pc by simp_all
  show ?thesis
  proof (cases r)
    case (Inl e)
    with pc fr show ?thesis
      by (simp add: execute_tool_chain_def)
  next
    case (Inr ctx)
    obtain res ctx1 w2 where cl: "chain_loop w1 as 0 msg ctx [] u sid = ((res, ctx1), w2)"
      by (cases "chain_loop w1 as 0 msg ctx [] u sid") auto
    have "memory w2 = memory w1" "agents w2 = agents w1" "diag w2 = diag w1"
      using chain_loop_frame [of w1 as 0 msg ctx "[]" u sid] cl by simp_all
    with Inr pc fr cl show ?thesis
      by (simp add: execute_tool_chain_def Let_def)
  qed
qed


section \<open>What \<open>route\<close> returns and what it leaves alone\<close>

lemma route_failed_frame [simp]:
  "memory (snd (route_failed w e)) = memory w" "agents (snd (route_failed w e)) = agents w"
  "fst (route_failed w e) = create_error_response (''Routing error: '' @ exn_str e)"
  by (simp_all add: route_failed_def)

lemma dispatch_frame [simp]:
  "memory (snd (dispatch w f os msg c u sid)) = memory w"
  "agents (snd (dispatch w f os msg c u sid)) = agents w"
  by (simp_all add: dispatch_def split_beta)

lemma respond_frame [simp]:
  "memory (snd (respond w st u sid r)) = memory w"
  "agents (snd (respond w st u sid r)) = agents w"
  by (simp_all add: respond_def Let_def)

lemma respond_result:
  "fst (respond w st u sid r) = annotate r (time_float (clock w (ticks w)) - st) sid u"
  by (simp add: respond_def Let_def tick_def)

lemma route_intent_result:
  "memory (snd (route_intent w st u sid i msg c)) = memory w \<and>
   agents (snd (route_intent w st u sid i msg c)) = agents w \<and>
   ((\<exists>e. fst (route_intent w st u sid i msg c) =
           create_error_response (''Routing error: '' @ e)) \<or>
    fst (route_intent w st u sid i msg c) =
      create_error_response (''No agent found for intent: '' @ i) \<or>
    (\<exists>r et. fst (route_intent w st u sid i msg c) = annotate r et sid u))"
proof (cases "select_agents w i c")
  case (Inl e)
  then show ?thesis by (auto simp: route_intent_def)
next
  case (Inr sel)
  show ?thesis
  proof (cases sel)
    case Nil
    with Inr show ?thesis by (auto simp: route_intent_def)
  next
    case (Cons f os)
    define sid1 where "sid1 = (if py_truthy sid then sid else PStr ''default'')"
    define w1 where "w1 = log_agent_selection w u i f (list_active w) ''Intent-based routing'' sid1"
    obtain r w2 where d: "dispatch w1 f os msg c u sid1 = (r, w2)"
      by (cases "dispatch w1 f os msg c u sid1") auto
    have fr1: "memory w1 = memory w" "agents w1 = agents w"
      by (simp_all add: w1_def)
    have fr: "memory w2 = memory w" "agents w2 = agents w"
      using dispatch_frame [of w1 f os msg c u sid1] d fr1 by simp_all
    show ?thesis
    proof (cases r)
      case (Inl e)
      with Inr Cons d fr show ?thesis
        by (auto simp: route_intent_def Let_def sid1_def [symmetric] w1_def [symmetric])
    next
      case (Inr resp)
      with \<open>select_agents w i c = Inr sel\<close> Cons d fr show ?thesis
        by (auto simp: route_intent_def Let_def sid1_def [symmetric] w1_def [symmetric]
              respond_result)
    qed
  qed
qed

lemma route_result:
  assumes "route w d = Some (env, w')"
  shows "memory w' = memory w \<and> agents w' = agents w \<and>
         (env = create_error_response ''Invalid ACP message format'' \<or>
          (\<exists>e. env = create_error_response (''Routing error: '' @ e)) \<or>
          (\<exists>i. env = create_error_response (''No agent found for intent: '' @ i)) \<or>
          (\<exists>r et sid u. env = annotate r et sid u))"
proof (cases "from_dict (clock (snd (tick w))) (ticks (snd (tick w))) d")
  case (Inl e)
  with assms show ?thesis by (auto simp: route_def Let_def route_failed_def)
next
  case (Inr p)
  obtain m t1 where p: "p = (m, t1)" by (cases p)
  show ?thesis
  proof (cases "is_valid m")
    case False
    with assms Inr p show ?thesis by (auto simp: route_def Let_def)
  next
    case True
    show ?thesis
    proof (cases "extract_user_id (from_id m)")
      case (Inl e)
      with assms \<open>from_dict _ _ d = Inr p\<close> p True show ?thesis
        by (auto simp: route_def Let_def route_failed_def)
    next
      case u: (Inr u)
      show ?thesis
      proof (cases "analyze_intent m")
        case (Inl e)
        with assms \<open>from_dict _ _ d = Inr p\<close> p True u show ?thesis
          by (auto simp: route_def Let_def route_failed_def)
      next
        case ai: (Inr resolved)
        define w3 where "w3 = log_intent_analysis
            (logger_log (snd (tick w)\<lparr>ticks := t1\<rparr>) u ''message_received''
               [(''message'', PDict (to_dict m))] (session_id m))
            u (message m) resolved (9 / 10) (session_id m)"
        have fr: "memory w3 = memory w" "agents w3 = agents w"
          by (simp_all add: w3_def)
        from assms \<open>from_dict _ _ d = Inr p\<close> p True u ai
        obtain i msg c where
          ri: "route_intent w3 (time_float (fst (tick w))) u (session_id m) i msg c = (env, w')"
          by (auto simp: route_def Let_def w3_def split: pyval.splits)
        show ?thesis
          using route_intent_result [of w3 "time_float (fst (tick w))" u "session_id m" i msg c]
            fr
          unfolding ri by (simp add: fr) blast
      qed
    qed
  qed
qed

section \<open>Properties of \<open>route\<close>\<close>

lemma from_dict_unknown_key:
  assumes "\<not> set (map fst d) \<subseteq> set acp_fields"
  shows "\<exists>k. k \<in> set (map fst d) \<and> k \<notin> set acp_fields \<and>
           from_dict clk t d = Inl (TypeError (bad_keyword_msg ''ACPMessage'' k))"
proof -
  from assms obtain k where
    "find (\<lambda>k. k \<notin> set acp_fields) (map fst d) = Some k"
    by (cases "find (\<lambda>k. k \<notin> set acp_fields) (map fst d)") (auto simp: find_None_iff)
  moreover from this have "k \<in> set (map fst d) \<and> k \<notin> set acp_fields"
    by (auto simp: find_Some_iff)
  ultimately show ?thesis
    by (auto simp: from_dict_def)
qed

text \<open>
  C10.  When the input record has a key that is none of the eight message fields,
  building the message raises \<open>TypeError\<close> (so \<open>is_valid\<close> is never reached), \<open>route\<close>
  catches it and returns the failure envelope whose \<open>success\<close> is false and whose error
  text is \<open>Routing error:\<close> followed by the exception's text, not the invalid-format
  error.
\<close>

theorem route_unknown_key:
  assumes "\<not> set (map fst d) \<subseteq> set acp_fields"
  shows "\<exists>e env w'. from_dict (clock w) (Suc (ticks w)) d = Inl (TypeError e) \<and>
           route w d = Some (env, w') \<and>
           env = create_error_response (''Routing error: '' @ e) \<and>
           map_of env ''success'' = Some (PBool False) \<and>
           map_of env ''error'' = Some (PStr (''Routing error: '' @ e)) \<and>
           map_of env ''error'' \<noteq> Some (PStr ''Invalid ACP message format'')"
proof -
  obtain k where
    fd: "from_dict (clock w) (Suc (ticks w)) d = Inl (TypeError (bad_keyword_msg ''ACPMessage'' k))"
    using from_dict_unknown_key [OF assms] by blast
  then show ?thesis
    by (simp add: route_def Let_def tick_def route_failed_def create_error_response_def)
qed

theorem route_unknown_key_witness:
  "map_option fst (route world0 (sample_dict [] ''Will it rain?'' [] @ [(''priority'', PInt 1)]))
     = Some (create_error_response (''Routing error: ''
          @ ''ACPMessage.__init__() got an unexpected keyword argument '' @ quoted ''priority''))"
  using route_unknown_key [of "sample_dict [] ''Will it rain?'' [] @ [(''priority'', PInt 1)]" world0]
  by (simp add: sample_dict_def acp_fields_def from_dict_def bad_keyword_msg_def world0_def)

end
